theory Spec2Isabelle
  imports Main "HOL-Library.Sublist"
begin

section \<open>Lead ingestion: the write protocol of \<open>ingestLead\<close>\<close>

text \<open>
  The development embeds \<^verbatim>\<open>src/utils/errors.ts\<close> (error classification and
  \<^verbatim>\<open>logError\<close>) and \<^verbatim>\<open>src/services/leadService.ts\<close> (\<^verbatim>\<open>ingestLead\<close>).
  A value of TypeScript type \<^verbatim>\<open>string | null\<close> is a \<open>string option\<close>, with \<open>None\<close>
  for \<^verbatim>\<open>null\<close>. The asynchronous function is modelled by explicit state passing over
  a \<open>world\<close> (the two tables, the emitted log, the storage calls issued); a rejected
  promise is the \<open>Inl\<close> branch of the result.
\<close>

subsection \<open>Thrown values (\<^verbatim>\<open>error: unknown\<close>)\<close>

text \<open>
  What a \<^verbatim>\<open>catch\<close> clause can receive: a \<^verbatim>\<open>Prisma.PrismaClientKnownRequestError\<close>
  with its \<^verbatim>\<open>code\<close> and \<^verbatim>\<open>meta\<close>, any other \<^verbatim>\<open>Error\<close>, or a value that is not an
  \<^verbatim>\<open>Error\<close> at all (kept as its \<^verbatim>\<open>String(error)\<close> rendering). \<^verbatim>\<open>meta\<close> may be
  undefined, and so may \<^verbatim>\<open>meta.target\<close> (cast to \<^verbatim>\<open>{ target?: string[] } | undefined\<close>).
\<close>

record ErrorFields =
  name :: string
  message :: string
  stack :: "string option"

record PrismaMeta =
  target :: "string list option"

datatype thrown =
    PrismaClientKnownRequestError ErrorFields string "PrismaMeta option"
  | OtherError ErrorFields
  | NonError string

subsection \<open>String and array primitives used by the classifier\<close>

text \<open>
  \<^verbatim>\<open>String.prototype.toLowerCase\<close> on field names. Names are byte strings here, and the
  26 ASCII capitals are mapped to their small letters; every other byte is kept. The only
  use is the search for the ASCII word \<^verbatim>\<open>idempotency\<close> in the result.
\<close>

definition toLowerCase_char :: "char \<Rightarrow> char" where
  "toLowerCase_char c =
     (case map_of (zip ''ABCDEFGHIJKLMNOPQRSTUVWXYZ'' ''abcdefghijklmnopqrstuvwxyz'') c of
        Some l \<Rightarrow> l
      | None \<Rightarrow> c)"

definition toLowerCase :: "string \<Rightarrow> string" where
  "toLowerCase s = map toLowerCase_char s"

text \<open>\<^verbatim>\<open>String.prototype.includes\<close>: the argument occurs as a contiguous substring.\<close>

fun string_includes :: "string \<Rightarrow> string \<Rightarrow> bool" where
  "string_includes [] sub = (sub = [])"
| "string_includes (c # cs) sub = (prefix sub (c # cs) \<or> string_includes cs sub)"

text \<open>\<^verbatim>\<open>Array.prototype.includes\<close> and \<^verbatim>\<open>Array.prototype.some\<close> on a string array.\<close>

definition array_includes :: "string list \<Rightarrow> string \<Rightarrow> bool" where
  "array_includes arr x = (x \<in> set arr)"

definition array_some :: "string list \<Rightarrow> (string \<Rightarrow> bool) \<Rightarrow> bool" where
  "array_some arr p = list_ex p arr"

subsection \<open>\<^verbatim>\<open>utils/errors.ts\<close>: classification\<close>

definition isPrismaUniqueConstraintError :: "thrown \<Rightarrow> bool" where
  "isPrismaUniqueConstraintError error =
     (case error of
        PrismaClientKnownRequestError _ code _ \<Rightarrow> code = ''P2002''
      | _ \<Rightarrow> False)"

text \<open>The expression \<^verbatim>\<open>meta?.target || []\<close>; an array, even an empty one, is truthy.\<close>

definition meta_target :: "thrown \<Rightarrow> string list" where
  "meta_target error =
     (case error of
        PrismaClientKnownRequestError _ _ (Some meta) \<Rightarrow>
          (case target meta of Some t \<Rightarrow> t | None \<Rightarrow> [])
      | _ \<Rightarrow> [])"

definition isIdempotencyKeyConstraintError :: "thrown \<Rightarrow> bool" where
  "isIdempotencyKeyConstraintError error =
     (if \<not> isPrismaUniqueConstraintError error then False
      else
        array_includes (meta_target error) ''idempotencyKey'' \<or>
        array_includes (meta_target error) ''idempotency_key'' \<or>
        array_some (meta_target error)
          (\<lambda>field. string_includes (toLowerCase field) ''idempotency''))"

text \<open>
  The classification as the specification words it, for comparison with the code: a
  unique-constraint violation whose violated fields contain the key field under one of
  its two spellings, compared case-insensitively.
\<close>

definition spec_benign_duplicate :: "thrown \<Rightarrow> bool" where
  "spec_benign_duplicate error =
     (isPrismaUniqueConstraintError error \<and>
      list_ex (\<lambda>field. toLowerCase field = toLowerCase ''idempotencyKey'' \<or>
                       toLowerCase field = toLowerCase ''idempotency_key'')
        (meta_target error))"

subsection \<open>Payload, options and result (\<^verbatim>\<open>types/lead.ts\<close>, \<^verbatim>\<open>leadService.ts\<close>)\<close>

record CrmLeadPayload =
  click_id :: "string option"
  country :: "string option"
  creo :: "string option"
  description :: "string option"
  domain :: "string option"
  email :: "string option"
  firstName :: "string option"
  ip :: "string option"
  lang :: "string option"
  lastName :: "string option"
  marker :: "string option"
  offer :: "string option"
  phone :: "string option"
  sourcetype :: "string option"

record IngestLeadOptions =
  payload :: CrmLeadPayload
  idempotencyKey :: "string option"
  xRequestId :: "string option"

text \<open>
  \<^verbatim>\<open>IngestLeadResult\<close> carries \<^verbatim>\<open>response.lead_id\<close> and \<^verbatim>\<open>response.deduplicated\<close>
  (\<^verbatim>\<open>ok\<close> is the constant \<^verbatim>\<open>true\<close>); \<^verbatim>\<open>IngestLeadError\<close> carries the caught error.
\<close>

datatype IngestLeadOutcome =
    IngestLeadResult string bool
  | IngestLeadError thrown

subsection \<open>Rows of the two tables\<close>

text \<open>
  A row holds exactly the \<^verbatim>\<open>data\<close> object handed to \<^verbatim>\<open>prisma.leadRaw.create\<close> and
  \<^verbatim>\<open>prisma.lead.create\<close>; the field names carry the table's name as a prefix.
\<close>

record LeadRaw =
  leads_raw_id :: string
  leads_raw_idempotencyKey :: "string option"
  leads_raw_xRequestId :: "string option"
  leads_raw_payload :: CrmLeadPayload

record Lead =
  leads_id :: string
  leads_clickId :: "string option"
  leads_country :: "string option"
  leads_creo :: "string option"
  leads_description :: "string option"
  leads_domain :: "string option"
  leads_email :: "string option"
  leads_firstName :: "string option"
  leads_lastName :: "string option"
  leads_ip :: "string option"
  leads_lang :: "string option"
  leads_marker :: "string option"
  leads_offer :: "string option"
  leads_phone :: "string option"
  leads_sourcetype :: "string option"
  leads_idempotencyKey :: "string option"
  leads_xRequestId :: "string option"
  leads_status :: string

text \<open>
  The \<^verbatim>\<open>where\<close> condition of \<^verbatim>\<open>prisma.lead.findFirst\<close> on \<^verbatim>\<open>idempotencyKey\<close>: the
  source passes a string or \<^verbatim>\<open>undefined\<close>.
\<close>

datatype key_filter = Undefined | Equals string

datatype query =
    LeadRaw_create LeadRaw
  | Lead_create Lead
  | Lead_findFirst key_filter

subsection \<open>The log\<close>

datatype log_level = INFO | ERROR

datatype log_value =
    LString string
  | LNull
  | LUndefined
  | LPayload CrmLeadPayload
  | LMeta PrismaMeta

record log_entry =
  level :: log_level
  bindings :: "(string \<times> log_value) list"
  msg :: string

record world =
  leads_raw :: "LeadRaw list"
  leads :: "Lead list"
  logged :: "log_entry list"
  queries :: "query list"

text \<open>
  Modelled from the spec: the \<^verbatim>\<open>logger\<close> module (\<^verbatim>\<open>src/logger.ts\<close>) is not among the
  sources. Section 1 describes it as structured log emission; a call appends one entry
  with its severity, its fields and its message, and touches nothing else.
\<close>

definition logger_info :: "(string \<times> log_value) list \<Rightarrow> string \<Rightarrow> world \<Rightarrow> world" where
  "logger_info obj m w = w\<lparr>logged := logged w @ [\<lparr>level = INFO, bindings = obj, msg = m\<rparr>]\<rparr>"

definition logger_error :: "(string \<times> log_value) list \<Rightarrow> string \<Rightarrow> world \<Rightarrow> world" where
  "logger_error obj m w = w\<lparr>logged := logged w @ [\<lparr>level = ERROR, bindings = obj, msg = m\<rparr>]\<rparr>"

text \<open>How a \<^verbatim>\<open>string | null\<close> and a \<^verbatim>\<open>string | undefined\<close> value appear in a log object.\<close>

definition nullable :: "string option \<Rightarrow> log_value" where
  "nullable v = (case v of Some s \<Rightarrow> LString s | None \<Rightarrow> LNull)"

definition optional :: "string option \<Rightarrow> log_value" where
  "optional v = (case v of Some s \<Rightarrow> LString s | None \<Rightarrow> LUndefined)"

text \<open>
  \<^verbatim>\<open>logError\<close> of \<^verbatim>\<open>utils/errors.ts\<close>. The spread \<^verbatim>\<open>{...context, errorName, ...}\<close> is
  the context followed by the added fields (their names do not occur in a context built by
  \<^verbatim>\<open>ingestLead\<close>).
\<close>

definition logError :: "thrown \<Rightarrow> (string \<times> log_value) list \<Rightarrow> world \<Rightarrow> world" where
  "logError error context w =
     (case error of
        PrismaClientKnownRequestError e code meta \<Rightarrow>
          logger_error
            (context @
             [(''errorName'', LString (name e)),
              (''errorMessage'', LString (message e)),
              (''errorStack'', optional (stack e)),
              (''prismaCode'', LString code),
              (''prismaMeta'', (case meta of Some m \<Rightarrow> LMeta m | None \<Rightarrow> LUndefined))])
            ''Error occurred during lead ingestion'' w
      | OtherError e \<Rightarrow>
          logger_error
            (context @
             [(''errorName'', LString (name e)),
              (''errorMessage'', LString (message e)),
              (''errorStack'', optional (stack e))])
            ''Error occurred during lead ingestion'' w
      | NonError s \<Rightarrow>
          logger_error (context @ [(''error'', LString s)])
            ''Unknown error occurred during lead ingestion'' w)"

subsection \<open>The storage engine\<close>

text \<open>
  Modelled from the spec: the Prisma schema with the tables and their constraints is not
  among the sources. Sections 3, 4.2 and 6: two tables, each with a generated unique
  identifier and a uniqueness constraint on its idempotency-key column from which null
  keys are exempt; an operation succeeds or fails with a uniqueness violation naming the
  violated fields, or with some other failure. The \<open>fault\<close> argument is the failure that
  the environment imposes on the call (connectivity, serialization, a conflict with a
  concurrent writer); with \<open>None\<close> only the table's own constraints decide. A failed insert
  writes nothing. The violation is reported under the field name of the \<^verbatim>\<open>create\<close> call.
\<close>

definition unique_violation :: "string list \<Rightarrow> thrown" where
  "unique_violation violated =
     PrismaClientKnownRequestError
       \<lparr>name = ''PrismaClientKnownRequestError'',
        message = ''Unique constraint failed'',
        stack = None\<rparr>
       ''P2002'' (Some \<lparr>target = Some violated\<rparr>)"

text \<open>
  Modelled from the spec: insert into the raw-capture table (\<^verbatim>\<open>leads_raw\<close>), whose
  constraints are declared in the missing schema.
\<close>

definition insert_leads_raw :: "thrown option \<Rightarrow> LeadRaw \<Rightarrow> LeadRaw list \<Rightarrow> thrown + LeadRaw list" where
  "insert_leads_raw fault data table =
     (case fault of
        Some e \<Rightarrow> Inl e
      | None \<Rightarrow>
          if leads_raw_id data \<in> set (map leads_raw_id table)
          then Inl (unique_violation [''id''])
          else if leads_raw_idempotencyKey data \<noteq> None \<and>
                  leads_raw_idempotencyKey data \<in> set (map leads_raw_idempotencyKey table)
          then Inl (unique_violation [''idempotencyKey''])
          else Inr (table @ [data]))"

text \<open>
  Modelled from the spec: insert into the table of normalized leads (\<^verbatim>\<open>leads\<close>), with
  the same two constraints.
\<close>

definition insert_leads :: "thrown option \<Rightarrow> Lead \<Rightarrow> Lead list \<Rightarrow> thrown + Lead list" where
  "insert_leads fault data table =
     (case fault of
        Some e \<Rightarrow> Inl e
      | None \<Rightarrow>
          if leads_id data \<in> set (map leads_id table)
          then Inl (unique_violation [''id''])
          else if leads_idempotencyKey data \<noteq> None \<and>
                  leads_idempotencyKey data \<in> set (map leads_idempotencyKey table)
          then Inl (unique_violation [''idempotencyKey''])
          else Inr (table @ [data]))"

text \<open>
  Modelled from the spec: the lookup of section 4.1 by idempotency key, selecting the
  identifier. A condition that is \<^verbatim>\<open>undefined\<close> filters nothing, so the first row of the
  table is found.
\<close>

fun matches :: "key_filter \<Rightarrow> Lead \<Rightarrow> bool" where
  "matches Undefined row = True"
| "matches (Equals k) row = (leads_idempotencyKey row = Some k)"

definition find_first_lead :: "thrown option \<Rightarrow> key_filter \<Rightarrow> Lead list \<Rightarrow> thrown + string option" where
  "find_first_lead fault where_key table =
     (case fault of
        Some e \<Rightarrow> Inl e
      | None \<Rightarrow> Inr (map_option leads_id (find (matches where_key) table)))"

text \<open>
  Modelled from the spec: the three operations of the storage gateway (section 4.2) as
  the source calls them, \<^verbatim>\<open>prisma.leadRaw.create\<close>, \<^verbatim>\<open>prisma.lead.create\<close> and
  \<^verbatim>\<open>prisma.lead.findFirst\<close>. Each call is recorded in \<open>queries\<close> when it is issued.
\<close>

definition prisma_leadRaw_create :: "thrown option \<Rightarrow> LeadRaw \<Rightarrow> world \<Rightarrow> (thrown + unit) \<times> world" where
  "prisma_leadRaw_create fault data w =
     (let w1 = w\<lparr>queries := queries w @ [LeadRaw_create data]\<rparr> in
      case insert_leads_raw fault data (leads_raw w) of
        Inl e \<Rightarrow> (Inl e, w1)
      | Inr table \<Rightarrow> (Inr (), w1\<lparr>leads_raw := table\<rparr>))"

definition prisma_lead_create :: "thrown option \<Rightarrow> Lead \<Rightarrow> world \<Rightarrow> (thrown + unit) \<times> world" where
  "prisma_lead_create fault data w =
     (let w1 = w\<lparr>queries := queries w @ [Lead_create data]\<rparr> in
      case insert_leads fault data (leads w) of
        Inl e \<Rightarrow> (Inl e, w1)
      | Inr table \<Rightarrow> (Inr (), w1\<lparr>leads := table\<rparr>))"

definition prisma_lead_findFirst :: "thrown option \<Rightarrow> key_filter \<Rightarrow> world \<Rightarrow> (thrown + string option) \<times> world" where
  "prisma_lead_findFirst fault where_key w =
     (find_first_lead fault where_key (leads w),
      w\<lparr>queries := queries w @ [Lead_findFirst where_key]\<rparr>)"

text \<open>The failures imposed on the three calls of one request.\<close>

record faults =
  leadRaw_create_fault :: "thrown option"
  lead_create_fault :: "thrown option"
  lead_findFirst_fault :: "thrown option"

definition no_faults :: faults where
  "no_faults = \<lparr>leadRaw_create_fault = None, lead_create_fault = None, lead_findFirst_fault = None\<rparr>"

subsection \<open>\<^verbatim>\<open>services/leadService.ts\<close>: \<^verbatim>\<open>ingestLead\<close>\<close>

text \<open>\<^verbatim>\<open>v || null\<close> and \<^verbatim>\<open>v || undefined\<close> on a \<^verbatim>\<open>string | null\<close>: the empty string is falsy.\<close>

definition or_null :: "string option \<Rightarrow> string option" where
  "or_null v = (case v of None \<Rightarrow> None | Some s \<Rightarrow> if s = [] then None else Some s)"

definition or_undefined :: "string option \<Rightarrow> key_filter" where
  "or_undefined v = (case v of None \<Rightarrow> Undefined | Some s \<Rightarrow> if s = [] then Undefined else Equals s)"

text \<open>The object \<^verbatim>\<open>{ leadId, idempotencyKey, xRequestId }\<close> of every log call.\<close>

definition request_context :: "string \<Rightarrow> IngestLeadOptions \<Rightarrow> (string \<times> log_value) list" where
  "request_context leadId options =
     [(''leadId'', LString leadId),
      (''idempotencyKey'', nullable (idempotencyKey options)),
      (''xRequestId'', nullable (xRequestId options))]"

text \<open>The context \<^verbatim>\<open>{ step, leadId, idempotencyKey, xRequestId, payload }\<close> of \<^verbatim>\<open>logError\<close>.\<close>

definition error_context :: "string \<Rightarrow> string \<Rightarrow> IngestLeadOptions \<Rightarrow> (string \<times> log_value) list" where
  "error_context step leadId options =
     (''step'', LString step) # request_context leadId options @
     [(''payload'', LPayload (payload options))]"

text \<open>The \<^verbatim>\<open>data\<close> objects of the two \<^verbatim>\<open>create\<close> calls.\<close>

definition leadRaw_data :: "string \<Rightarrow> IngestLeadOptions \<Rightarrow> LeadRaw" where
  "leadRaw_data leadId options =
     \<lparr>leads_raw_id = leadId,
      leads_raw_idempotencyKey = or_null (idempotencyKey options),
      leads_raw_xRequestId = or_null (xRequestId options),
      leads_raw_payload = payload options\<rparr>"

definition lead_data :: "string \<Rightarrow> IngestLeadOptions \<Rightarrow> Lead" where
  "lead_data leadId options =
     \<lparr>leads_id = leadId,
      leads_clickId = or_null (click_id (payload options)),
      leads_country = or_null (country (payload options)),
      leads_creo = or_null (creo (payload options)),
      leads_description = or_null (description (payload options)),
      leads_domain = or_null (domain (payload options)),
      leads_email = or_null (email (payload options)),
      leads_firstName = or_null (firstName (payload options)),
      leads_lastName = or_null (lastName (payload options)),
      leads_ip = or_null (ip (payload options)),
      leads_lang = or_null (lang (payload options)),
      leads_marker = or_null (marker (payload options)),
      leads_offer = or_null (offer (payload options)),
      leads_phone = or_null (phone (payload options)),
      leads_sourcetype = or_null (sourcetype (payload options)),
      leads_idempotencyKey = or_null (idempotencyKey options),
      leads_xRequestId = or_null (xRequestId options),
      leads_status = ''new''\<rparr>"

text \<open>
  Step 2 of \<^verbatim>\<open>ingestLead\<close>: the second \<^verbatim>\<open>try\<close>/\<^verbatim>\<open>catch\<close>. The lookup is awaited inside
  the \<^verbatim>\<open>catch\<close> block with no handler around it, so a lookup that throws rejects the
  promise of \<^verbatim>\<open>ingestLead\<close> (\<open>Inl\<close>).
\<close>

definition normalized_storage ::
  "faults \<Rightarrow> string \<Rightarrow> IngestLeadOptions \<Rightarrow> world \<Rightarrow> (thrown + IngestLeadOutcome) \<times> world" where
  "normalized_storage env leadId options w =
     (case prisma_lead_create (lead_create_fault env) (lead_data leadId options) w of
        (Inr _, w1) \<Rightarrow>
          (Inr (IngestLeadResult leadId False),
           logger_info (request_context leadId options) ''Lead created successfully'' w1)
      | (Inl error, w1) \<Rightarrow>
          if isIdempotencyKeyConstraintError error then
            (let w2 = logger_info (request_context leadId options)
                        ''Lead deduplicated (idempotency key match)'' w1 in
             case prisma_lead_findFirst (lead_findFirst_fault env)
                    (or_undefined (idempotencyKey options)) w2 of
               (Inl rejected, w3) \<Rightarrow> (Inl rejected, w3)
             | (Inr None, w3) \<Rightarrow>
                 (Inr (IngestLeadError error),
                  logger_error (request_context leadId options)
                    ''Idempotency key conflict but existing lead not found'' w3)
             | (Inr (Some existingLead), w3) \<Rightarrow>
                 (Inr (IngestLeadResult existingLead True), w3))
          else
            (Inr (IngestLeadError error),
             logError error (error_context ''normalized_storage'' leadId options) w1))"

text \<open>
  \<^verbatim>\<open>ingestLead\<close>. The identifier drawn by \<^verbatim>\<open>randomUUID()\<close> is the argument \<open>leadId\<close>;
  \<open>env\<close> holds the failures imposed on the storage calls.
\<close>

definition ingestLead ::
  "faults \<Rightarrow> string \<Rightarrow> IngestLeadOptions \<Rightarrow> world \<Rightarrow> (thrown + IngestLeadOutcome) \<times> world" where
  "ingestLead env leadId options w =
     (let w0 = logger_info (request_context leadId options) ''Starting lead ingestion'' w in
      case prisma_leadRaw_create (leadRaw_create_fault env) (leadRaw_data leadId options) w0 of
        (Inr _, w1) \<Rightarrow>
          normalized_storage env leadId options
            (logger_info (request_context leadId options) ''Raw lead stored successfully'' w1)
      | (Inl error, w1) \<Rightarrow>
          if isIdempotencyKeyConstraintError error then
            normalized_storage env leadId options
              (logger_info (request_context leadId options)
                 ''Raw lead already exists (idempotency key conflict), continuing with normalized storage''
                 w1)
          else
            (Inr (IngestLeadError error),
             logError error (error_context ''raw_storage'' leadId options) w1))"

text \<open>
  Step 1 does not abort the request: the raw insert succeeds, or it fails with an error
  that \<^verbatim>\<open>isIdempotencyKeyConstraintError\<close> accepts.
\<close>

definition raw_storage_passes :: "faults \<Rightarrow> string \<Rightarrow> IngestLeadOptions \<Rightarrow> world \<Rightarrow> bool" where
  "raw_storage_passes env leadId options w =
     (case insert_leads_raw (leadRaw_create_fault env) (leadRaw_data leadId options) (leads_raw w) of
        Inr _ \<Rightarrow> True
      | Inl error \<Rightarrow> isIdempotencyKeyConstraintError error)"

subsection \<open>Concrete requests, stores and failures\<close>

definition sample_payload :: CrmLeadPayload where
  "sample_payload =
     \<lparr>click_id = None, country = Some ''LV'', creo = None, description = None, domain = None,
      email = Some ''a@x.com'', firstName = Some [], ip = None, lang = None, lastName = None,
      marker = None, offer = None, phone = None, sourcetype = None\<rparr>"

definition request_with_key :: "string option \<Rightarrow> IngestLeadOptions" where
  "request_with_key key =
     \<lparr>payload = sample_payload, idempotencyKey = key, xRequestId = Some ''req-123''\<rparr>"

definition empty_world :: world where
  "empty_world = \<lparr>leads_raw = [], leads = [], logged = [], queries = []\<rparr>"

text \<open>A store that already holds the lead \<open>U1\<close> submitted under the key \<open>k1\<close>.\<close>

definition world_with_k1 :: world where
  "world_with_k1 =
     \<lparr>leads_raw = [leadRaw_data ''U1'' (request_with_key (Some ''k1''))],
      leads = [lead_data ''U1'' (request_with_key (Some ''k1''))],
      logged = [], queries = []\<rparr>"

definition connection_error :: thrown where
  "connection_error =
     OtherError \<lparr>name = ''PrismaClientInitializationError'',
                 message = ''Cannot reach database server'', stack = None\<rparr>"

text \<open>The raw insert cannot reach the database.\<close>

definition raw_unreachable :: faults where
  "raw_unreachable =
     \<lparr>leadRaw_create_fault = Some connection_error, lead_create_fault = None,
      lead_findFirst_fault = None\<rparr>"

text \<open>The connection is lost between the two inserts.\<close>

definition normalized_unreachable :: faults where
  "normalized_unreachable =
     \<lparr>leadRaw_create_fault = None, lead_create_fault = Some connection_error,
      lead_findFirst_fault = None\<rparr>"

text \<open>The connection is lost between the normalization insert and the lookup.\<close>

definition lookup_unreachable :: faults where
  "lookup_unreachable =
     \<lparr>leadRaw_create_fault = None, lead_create_fault = None,
      lead_findFirst_fault = Some connection_error\<rparr>"

text \<open>
  The normalization insert loses against a writer whose row the store does not hold: it
  reports a violation on the key field.
\<close>

definition normalized_conflict :: faults where
  "normalized_conflict =
     \<lparr>leadRaw_create_fault = None,
      lead_create_fault = Some (unique_violation [''idempotencyKey'']),
      lead_findFirst_fault = None\<rparr>"

text \<open>A uniqueness violation on a field that is not the key field.\<close>

definition token_violation :: thrown where
  "token_violation = unique_violation [''idempotency_token'']"

text \<open>The raw insert reports a violation on that field.\<close>

definition raw_token_conflict :: faults where
  "raw_token_conflict =
     \<lparr>leadRaw_create_fault = Some token_violation, lead_create_fault = None,
      lead_findFirst_fault = None\<rparr>"

section \<open>Properties\<close>

subsection \<open>Primitives\<close>

lemma string_includes_sublist: "string_includes s sub \<longleftrightarrow> sublist sub s"
  by (induction s) (auto simp: sublist_Cons_right)

lemma toLowerCase_idempotencyKey: "toLowerCase ''idempotencyKey'' = ''idempotencykey''"
  by (simp add: toLowerCase_def toLowerCase_char_def)

lemma toLowerCase_idempotency_key: "toLowerCase ''idempotency_key'' = ''idempotency_key''"
  by (simp add: toLowerCase_def toLowerCase_char_def)

lemma variant_includes_idempotency:
  assumes "toLowerCase field = toLowerCase ''idempotencyKey'' \<or>
           toLowerCase field = toLowerCase ''idempotency_key''"
  shows "string_includes (toLowerCase field) ''idempotency''"
  using assms by (auto simp: toLowerCase_idempotencyKey toLowerCase_idempotency_key)

lemma or_null_simps [simp]: "or_null (Some []) = None" "or_null None = None"
  by (simp_all add: or_null_def)

lemma or_null_nonempty [simp]: "k \<noteq> [] \<Longrightarrow> or_null (Some k) = Some k"
  by (simp add: or_null_def)

lemma or_null_presence: "or_null v = (if v = Some [] then None else v)"
  by (cases v) (simp_all add: or_null_def)

lemma or_undefined_simps [simp]:
  "or_undefined (Some []) = Undefined" "or_undefined None = Undefined"
  by (simp_all add: or_undefined_def)

lemma or_undefined_nonempty [simp]: "k \<noteq> [] \<Longrightarrow> or_undefined (Some k) = Equals k"
  by (simp add: or_undefined_def)

lemma find_append_last:
  "\<forall>x \<in> set xs. \<not> P x \<Longrightarrow> P y \<Longrightarrow> find P (xs @ [y]) = Some y"
  by (induction xs) simp_all

subsection \<open>Classification\<close>

lemma classified_iff_some:
  "isIdempotencyKeyConstraintError error \<longleftrightarrow>
     isPrismaUniqueConstraintError error \<and>
     (\<exists>field \<in> set (meta_target error). string_includes (toLowerCase field) ''idempotency'')"
proof -
  have "string_includes (toLowerCase ''idempotencyKey'') ''idempotency''"
    by (simp add: toLowerCase_idempotencyKey)
  moreover have "string_includes (toLowerCase ''idempotency_key'') ''idempotency''"
    by (simp add: toLowerCase_idempotency_key)
  ultimately show ?thesis
    unfolding isIdempotencyKeyConstraintError_def array_includes_def array_some_def list_ex_iff
    by auto
qed

lemma spec_benign_duplicate_classified:
  "spec_benign_duplicate error \<Longrightarrow> isIdempotencyKeyConstraintError error"
  unfolding spec_benign_duplicate_def classified_iff_some list_ex_iff
  using variant_includes_idempotency by blast

lemma not_unique_not_idempotency:
  "\<not> isPrismaUniqueConstraintError error \<Longrightarrow> \<not> isIdempotencyKeyConstraintError error"
  by (simp add: isIdempotencyKeyConstraintError_def)

lemma unique_violation_idempotencyKey [simp]:
  "isIdempotencyKeyConstraintError (unique_violation [''idempotencyKey''])"
  by (simp add: unique_violation_def isIdempotencyKeyConstraintError_def
      isPrismaUniqueConstraintError_def meta_target_def array_includes_def)

lemma unique_violation_id [simp]:
  "\<not> isIdempotencyKeyConstraintError (unique_violation [''id''])"
  by (simp add: unique_violation_def isIdempotencyKeyConstraintError_def
      isPrismaUniqueConstraintError_def meta_target_def array_includes_def array_some_def
      toLowerCase_def toLowerCase_char_def)

lemma token_violation_classified:
  "isIdempotencyKeyConstraintError token_violation"
  by (simp add: token_violation_def unique_violation_def isIdempotencyKeyConstraintError_def
      isPrismaUniqueConstraintError_def meta_target_def array_includes_def array_some_def
      toLowerCase_def toLowerCase_char_def)

lemma connection_error_not_unique [simp]:
  "\<not> isPrismaUniqueConstraintError connection_error"
  "\<not> isIdempotencyKeyConstraintError connection_error"
  by (simp_all add: connection_error_def isPrismaUniqueConstraintError_def
      isIdempotencyKeyConstraintError_def)

text \<open>
  Claim C4, as stated: a failure is classified as the benign duplicate if and only if it is
  a unique-constraint violation whose violated fields contain \<^verbatim>\<open>idempotencyKey\<close> or
  \<^verbatim>\<open>idempotency_key\<close>, compared case-insensitively. The code also accepts a violation on
  \<^verbatim>\<open>idempotency_token\<close>, which is neither spelling of the key field.
\<close>

theorem isIdempotencyKeyConstraintError_other_field_counterexample:
  "isIdempotencyKeyConstraintError token_violation \<and> \<not> spec_benign_duplicate token_violation"
  by (simp add: token_violation_def unique_violation_def isIdempotencyKeyConstraintError_def
      isPrismaUniqueConstraintError_def meta_target_def array_includes_def array_some_def
      spec_benign_duplicate_def toLowerCase_def toLowerCase_char_def)

text \<open>
  Claim C4, amended: a failure is classified as the benign duplicate if and only if it is a
  unique-constraint violation (code \<^verbatim>\<open>P2002\<close>) with a violated field whose lower-cased
  name contains the substring \<^verbatim>\<open>idempotency\<close>. Both spellings of the key field, in any
  letter case, are such names, so every violation that the specification calls a duplicate
  is classified as one; a violation none of whose fields contains that substring, and a
  failure that is not a unique-constraint violation, never is.
\<close>

theorem isIdempotencyKeyConstraintError_iff:
  "(isIdempotencyKeyConstraintError error \<longleftrightarrow>
      isPrismaUniqueConstraintError error \<and>
      (\<exists>field \<in> set (meta_target error). string_includes (toLowerCase field) ''idempotency'')) \<and>
   (spec_benign_duplicate error \<longrightarrow> isIdempotencyKeyConstraintError error) \<and>
   (\<not> isPrismaUniqueConstraintError error \<longrightarrow> \<not> isIdempotencyKeyConstraintError error)"
  using classified_iff_some spec_benign_duplicate_classified not_unique_not_idempotency
  by blast

text \<open>
  Claim C4, amended, at a violation reported as \<^verbatim>\<open>Idempotency_Key\<close>: it is a duplicate in
  the specification's sense and is classified as one. A connection error is not.
\<close>

theorem isIdempotencyKeyConstraintError_iff_witness:
  "isPrismaUniqueConstraintError (unique_violation [''Idempotency_Key'']) \<and>
   (\<exists>field \<in> set (meta_target (unique_violation [''Idempotency_Key''])).
      string_includes (toLowerCase field) ''idempotency'') \<and>
   spec_benign_duplicate (unique_violation [''Idempotency_Key'']) \<and>
   isIdempotencyKeyConstraintError (unique_violation [''Idempotency_Key'']) \<and>
   \<not> isPrismaUniqueConstraintError connection_error \<and>
   \<not> isIdempotencyKeyConstraintError connection_error"
proof -
  have other: "\<not> isPrismaUniqueConstraintError connection_error"
    by (simp add: connection_error_def isPrismaUniqueConstraintError_def)
  have unique: "isPrismaUniqueConstraintError (unique_violation [''Idempotency_Key''])"
    by (simp add: unique_violation_def isPrismaUniqueConstraintError_def)
  have named: "\<exists>field \<in> set (meta_target (unique_violation [''Idempotency_Key''])).
      string_includes (toLowerCase field) ''idempotency''"
    by (simp add: unique_violation_def meta_target_def toLowerCase_def toLowerCase_char_def)
  have spec: "spec_benign_duplicate (unique_violation [''Idempotency_Key''])"
    by (simp add: spec_benign_duplicate_def unique_violation_def isPrismaUniqueConstraintError_def
        meta_target_def toLowerCase_def toLowerCase_char_def)
  from isIdempotencyKeyConstraintError_iff [of "unique_violation [''Idempotency_Key'']"]
    isIdempotencyKeyConstraintError_iff [of connection_error]
    unique named spec other
  show ?thesis by blast
qed

subsection \<open>The log and the frame of a log call\<close>

lemma logger_info_frame [simp]:
  "leads (logger_info obj m w) = leads w"
  "leads_raw (logger_info obj m w) = leads_raw w"
  "queries (logger_info obj m w) = queries w"
  "logged (logger_info obj m w) = logged w @ [\<lparr>level = INFO, bindings = obj, msg = m\<rparr>]"
  by (simp_all add: logger_info_def)

lemma logger_error_frame [simp]:
  "leads (logger_error obj m w) = leads w"
  "leads_raw (logger_error obj m w) = leads_raw w"
  "queries (logger_error obj m w) = queries w"
  "logged (logger_error obj m w) = logged w @ [\<lparr>level = ERROR, bindings = obj, msg = m\<rparr>]"
  by (simp_all add: logger_error_def)

lemma logError_frame [simp]:
  "leads (logError error context w) = leads w"
  "leads_raw (logError error context w) = leads_raw w"
  "queries (logError error context w) = queries w"
  by (cases error; simp add: logError_def)+

lemma logError_entry:
  "\<exists>entry. logged (logError error context w) = logged w @ [entry] \<and>
      level entry = ERROR \<and> set context \<subseteq> set (bindings entry)"
  by (cases error) (auto simp: logError_def)

subsection \<open>Step 2 in terms of the tables\<close>

lemma normalized_storage_result:
  "fst (normalized_storage env leadId options w) =
     (case insert_leads (lead_create_fault env) (lead_data leadId options) (leads w) of
        Inr _ \<Rightarrow> Inr (IngestLeadResult leadId False)
      | Inl error \<Rightarrow>
          if isIdempotencyKeyConstraintError error then
            (case find_first_lead (lead_findFirst_fault env)
                    (or_undefined (idempotencyKey options)) (leads w) of
               Inl rejected \<Rightarrow> Inl rejected
             | Inr None \<Rightarrow> Inr (IngestLeadError error)
             | Inr (Some existingLead) \<Rightarrow> Inr (IngestLeadResult existingLead True))
          else Inr (IngestLeadError error))"
  by (simp add: normalized_storage_def prisma_lead_create_def prisma_lead_findFirst_def Let_def
      split: sum.splits option.splits)

lemma normalized_storage_leads:
  "leads (snd (normalized_storage env leadId options w)) =
     (case insert_leads (lead_create_fault env) (lead_data leadId options) (leads w) of
        Inr table \<Rightarrow> table
      | Inl _ \<Rightarrow> leads w)"
  by (simp add: normalized_storage_def prisma_lead_create_def prisma_lead_findFirst_def Let_def
      split: sum.splits option.splits)

lemma normalized_storage_leads_raw:
  "leads_raw (snd (normalized_storage env leadId options w)) = leads_raw w"
  by (simp add: normalized_storage_def prisma_lead_create_def prisma_lead_findFirst_def Let_def
      split: sum.splits option.splits)

lemma normalized_storage_queries:
  "queries (snd (normalized_storage env leadId options w)) =
     queries w @ Lead_create (lead_data leadId options) #
       (case insert_leads (lead_create_fault env) (lead_data leadId options) (leads w) of
          Inr _ \<Rightarrow> []
        | Inl error \<Rightarrow>
            if isIdempotencyKeyConstraintError error
            then [Lead_findFirst (or_undefined (idempotencyKey options))] else [])"
  by (simp add: normalized_storage_def prisma_lead_create_def prisma_lead_findFirst_def Let_def
      split: sum.splits option.splits)

subsection \<open>\<^verbatim>\<open>ingestLead\<close> in terms of the tables\<close>

lemma ingestLead_cases:
  "ingestLead env leadId options w =
     (case insert_leads_raw (leadRaw_create_fault env) (leadRaw_data leadId options) (leads_raw w) of
        Inr table \<Rightarrow>
          normalized_storage env leadId options
            (logger_info (request_context leadId options) ''Raw lead stored successfully''
               (logger_info (request_context leadId options) ''Starting lead ingestion'' w
                  \<lparr>queries := queries w @ [LeadRaw_create (leadRaw_data leadId options)],
                   leads_raw := table\<rparr>))
      | Inl error \<Rightarrow>
          if isIdempotencyKeyConstraintError error then
            normalized_storage env leadId options
              (logger_info (request_context leadId options)
                 ''Raw lead already exists (idempotency key conflict), continuing with normalized storage''
                 (logger_info (request_context leadId options) ''Starting lead ingestion'' w
                    \<lparr>queries := queries w @ [LeadRaw_create (leadRaw_data leadId options)]\<rparr>))
          else
            (Inr (IngestLeadError error),
             logError error (error_context ''raw_storage'' leadId options)
               (logger_info (request_context leadId options) ''Starting lead ingestion'' w
                  \<lparr>queries := queries w @ [LeadRaw_create (leadRaw_data leadId options)]\<rparr>)))"
  by (simp add: ingestLead_def prisma_leadRaw_create_def Let_def split: sum.splits)

lemma ingestLead_result:
  "fst (ingestLead env leadId options w) =
     (case insert_leads_raw (leadRaw_create_fault env) (leadRaw_data leadId options) (leads_raw w) of
        Inr _ \<Rightarrow> fst (normalized_storage env leadId options w)
      | Inl error \<Rightarrow>
          if isIdempotencyKeyConstraintError error
          then fst (normalized_storage env leadId options w)
          else Inr (IngestLeadError error))"
  by (simp add: ingestLead_cases normalized_storage_result split: sum.splits)

lemma ingestLead_result_passes:
  "raw_storage_passes env leadId options w \<Longrightarrow>
   fst (ingestLead env leadId options w) = fst (normalized_storage env leadId options w)"
  by (auto simp: ingestLead_result raw_storage_passes_def split: sum.splits)

lemma ingestLead_leads_raw:
  "leads_raw (snd (ingestLead env leadId options w)) =
     (case insert_leads_raw (leadRaw_create_fault env) (leadRaw_data leadId options) (leads_raw w) of
        Inr table \<Rightarrow> table
      | Inl _ \<Rightarrow> leads_raw w)"
  by (simp add: ingestLead_cases normalized_storage_leads_raw split: sum.splits)

lemma ingestLead_leads:
  "leads (snd (ingestLead env leadId options w)) =
     (if raw_storage_passes env leadId options w
      then leads (snd (normalized_storage env leadId options w))
      else leads w)"
  by (simp add: ingestLead_cases raw_storage_passes_def normalized_storage_leads split: sum.splits)

lemma ingestLead_leads_inserted:
  "raw_storage_passes env leadId options w \<Longrightarrow>
   insert_leads (lead_create_fault env) (lead_data leadId options) (leads w) = Inr table \<Longrightarrow>
   leads (snd (ingestLead env leadId options w)) = table"
  by (simp add: ingestLead_leads normalized_storage_leads)

lemma ingestLead_leads_rejected:
  "raw_storage_passes env leadId options w \<Longrightarrow>
   insert_leads (lead_create_fault env) (lead_data leadId options) (leads w) = Inl error \<Longrightarrow>
   leads (snd (ingestLead env leadId options w)) = leads w"
  by (simp add: ingestLead_leads normalized_storage_leads)

lemma ingestLead_queries:
  "queries (snd (ingestLead env leadId options w)) =
     queries w @ LeadRaw_create (leadRaw_data leadId options) #
       (if raw_storage_passes env leadId options w
        then Lead_create (lead_data leadId options) #
          (case insert_leads (lead_create_fault env) (lead_data leadId options) (leads w) of
             Inr _ \<Rightarrow> []
           | Inl error \<Rightarrow>
               if isIdempotencyKeyConstraintError error
               then [Lead_findFirst (or_undefined (idempotencyKey options))] else [])
        else [])"
  by (simp add: ingestLead_cases raw_storage_passes_def normalized_storage_queries split: sum.splits)

lemma insert_leads_raw_Inr:
  "insert_leads_raw fault data table = Inr table' \<Longrightarrow> table' = table @ [data]"
  by (auto simp: insert_leads_raw_def split: option.splits if_splits)

lemma insert_leads_Inr:
  "insert_leads fault data table = Inr table' \<Longrightarrow> table' = table @ [data]"
  by (auto simp: insert_leads_def split: option.splits if_splits)

lemma insert_leads_raw_null_key:
  "leads_raw_idempotencyKey data = None \<Longrightarrow> leads_raw_id data \<notin> set (map leads_raw_id table) \<Longrightarrow>
   insert_leads_raw None data table = Inr (table @ [data])"
  by (simp add: insert_leads_raw_def)

lemma insert_leads_null_key:
  "leads_idempotencyKey data = None \<Longrightarrow> leads_id data \<notin> set (map leads_id table) \<Longrightarrow>
   insert_leads None data table = Inr (table @ [data])"
  by (simp add: insert_leads_def)

lemma data_simps [simp]:
  "leads_raw_id (leadRaw_data leadId options) = leadId"
  "leads_raw_idempotencyKey (leadRaw_data leadId options) = or_null (idempotencyKey options)"
  "leads_id (lead_data leadId options) = leadId"
  "leads_idempotencyKey (lead_data leadId options) = or_null (idempotencyKey options)"
  by (simp_all add: leadRaw_data_def lead_data_def)

lemma no_faults_simps [simp]:
  "leadRaw_create_fault no_faults = None"
  "lead_create_fault no_faults = None"
  "lead_findFirst_fault no_faults = None"
  by (simp_all add: no_faults_def)

lemma request_with_key_simps [simp]:
  "idempotencyKey (request_with_key key) = key"
  "payload (request_with_key key) = sample_payload"
  by (simp_all add: request_with_key_def)

lemma world_simps [simp]:
  "leads_raw empty_world = []" "leads empty_world = []"
  "queries empty_world = []" "logged empty_world = []"
  "leads_raw world_with_k1 = [leadRaw_data ''U1'' (request_with_key (Some ''k1''))]"
  "leads world_with_k1 = [lead_data ''U1'' (request_with_key (Some ''k1''))]"
  "queries world_with_k1 = []" "logged world_with_k1 = []"
  by (simp_all add: empty_world_def world_with_k1_def)

subsection \<open>Step 1: the raw capture\<close>

text \<open>
  Claim C2: when the raw-capture insert fails with a uniqueness violation on the idempotency
  key (an error that \<^verbatim>\<open>isIdempotencyKeyConstraintError\<close> accepts, which by
  \<open>spec_benign_duplicate_classified\<close> covers every violation naming the key field), the call
  does not return failure at that point and does not retry the raw insert. Its result is the
  result of the normalization step, the raw table is left as it was, and the storage calls
  issued are one raw insert, directly followed by the normalization insert and at most the
  lookup.
\<close>

theorem ingestLead_raw_duplicate_continues:
  assumes "insert_leads_raw (leadRaw_create_fault env) (leadRaw_data leadId options) (leads_raw w)
             = Inl error"
    and "isIdempotencyKeyConstraintError error"
  shows "fst (ingestLead env leadId options w) = fst (normalized_storage env leadId options w) \<and>
         leads_raw (snd (ingestLead env leadId options w)) = leads_raw w \<and>
         (queries (snd (ingestLead env leadId options w)) =
            queries w @ [LeadRaw_create (leadRaw_data leadId options),
                         Lead_create (lead_data leadId options)] \<or>
          queries (snd (ingestLead env leadId options w)) =
            queries w @ [LeadRaw_create (leadRaw_data leadId options),
                         Lead_create (lead_data leadId options),
                         Lead_findFirst (or_undefined (idempotencyKey options))])"
  using assms
  by (simp add: ingestLead_result ingestLead_leads_raw ingestLead_queries raw_storage_passes_def
      split: sum.splits)

text \<open>
  Claim C2 on the store that holds \<open>U1\<close> under \<open>k1\<close>: a second submission under \<open>k1\<close>
  meets the constraint of the raw table and is resolved to \<open>U1\<close>.
\<close>

theorem ingestLead_raw_duplicate_continues_witness:
  "insert_leads_raw (leadRaw_create_fault no_faults)
     (leadRaw_data ''U2'' (request_with_key (Some ''k1''))) (leads_raw world_with_k1)
     = Inl (unique_violation [''idempotencyKey'']) \<and>
   isIdempotencyKeyConstraintError (unique_violation [''idempotencyKey'']) \<and>
   fst (ingestLead no_faults ''U2'' (request_with_key (Some ''k1'')) world_with_k1)
     = Inr (IngestLeadResult ''U1'' True) \<and>
   leads_raw (snd (ingestLead no_faults ''U2'' (request_with_key (Some ''k1'')) world_with_k1))
     = leads_raw world_with_k1"
proof -
  have raw: "insert_leads_raw (leadRaw_create_fault no_faults)
     (leadRaw_data ''U2'' (request_with_key (Some ''k1''))) (leads_raw world_with_k1)
     = Inl (unique_violation [''idempotencyKey''])"
    by (simp add: insert_leads_raw_def)
  have dup: "isIdempotencyKeyConstraintError (unique_violation [''idempotencyKey''])"
    by simp
  have step2: "fst (normalized_storage no_faults ''U2'' (request_with_key (Some ''k1'')) world_with_k1)
     = Inr (IngestLeadResult ''U1'' True)"
    by (simp add: normalized_storage_result insert_leads_def find_first_lead_def)
  from ingestLead_raw_duplicate_continues [OF raw dup] raw dup step2
  show ?thesis by simp
qed

text \<open>
  Claim C3, as stated: when the raw-capture insert fails with any error that is not an
  idempotency-key uniqueness violation, uniqueness violations on unrelated fields included,
  the call returns failure and never attempts the normalization insert. A violation on the
  field \<^verbatim>\<open>idempotency_token\<close> is not a violation on the key field, yet the call goes on:
  on an empty store it inserts the normalized lead and returns success, and no raw row
  has been written.
\<close>

theorem ingestLead_raw_other_field_counterexample:
  "insert_leads_raw (leadRaw_create_fault raw_token_conflict)
     (leadRaw_data ''U1'' (request_with_key (Some ''k1''))) (leads_raw empty_world)
     = Inl token_violation \<and>
   \<not> spec_benign_duplicate token_violation \<and>
   fst (ingestLead raw_token_conflict ''U1'' (request_with_key (Some ''k1'')) empty_world)
     = Inr (IngestLeadResult ''U1'' False) \<and>
   map leads_id
     (leads (snd (ingestLead raw_token_conflict ''U1'' (request_with_key (Some ''k1''))
                    empty_world)))
     = [''U1''] \<and>
   leads_raw (snd (ingestLead raw_token_conflict ''U1'' (request_with_key (Some ''k1''))
                     empty_world))
     = []"
proof -
  have raw: "insert_leads_raw (leadRaw_create_fault raw_token_conflict)
     (leadRaw_data ''U1'' (request_with_key (Some ''k1''))) (leads_raw empty_world)
     = Inl token_violation"
    by (simp add: insert_leads_raw_def raw_token_conflict_def)
  have other: "\<not> spec_benign_duplicate token_violation"
    by (simp add: token_violation_def unique_violation_def spec_benign_duplicate_def
        isPrismaUniqueConstraintError_def meta_target_def toLowerCase_def toLowerCase_char_def)
  have norm: "insert_leads (lead_create_fault raw_token_conflict)
     (lead_data ''U1'' (request_with_key (Some ''k1''))) (leads empty_world)
     = Inr [lead_data ''U1'' (request_with_key (Some ''k1''))]"
    by (simp add: insert_leads_def raw_token_conflict_def)
  have pass: "raw_storage_passes raw_token_conflict ''U1'' (request_with_key (Some ''k1''))
                empty_world"
    using raw token_violation_classified by (simp add: raw_storage_passes_def)
  have "fst (ingestLead raw_token_conflict ''U1'' (request_with_key (Some ''k1'')) empty_world)
     = Inr (IngestLeadResult ''U1'' False)"
    using norm by (simp add: ingestLead_result_passes [OF pass] normalized_storage_result)
  moreover have "leads (snd (ingestLead raw_token_conflict ''U1'' (request_with_key (Some ''k1''))
                    empty_world))
     = [lead_data ''U1'' (request_with_key (Some ''k1''))]"
    using pass norm by (rule ingestLead_leads_inserted)
  moreover have "leads_raw (snd (ingestLead raw_token_conflict ''U1''
                     (request_with_key (Some ''k1'')) empty_world)) = []"
    using raw by (simp add: ingestLead_leads_raw)
  ultimately show ?thesis
    using raw other by simp
qed

text \<open>
  Claim C3, amended: when the raw-capture insert fails with any error that is not a
  uniqueness violation naming a field whose lower-cased name contains \<^verbatim>\<open>idempotency\<close>
  (so: any failure that is not a unique-constraint violation, such as a connectivity
  error, and any uniqueness violation on fields without that word, such as the
  identifier), the call returns the failure result with that error, issues no storage call
  after the raw insert, and leaves both tables unchanged. It logs exactly two entries: the
  start of the ingestion, and one entry at error severity with the step
  \<^verbatim>\<open>raw_storage\<close>, the lead id, the idempotency key and the request id as supplied, the
  original payload, and the name, message and stack of the error (with the Prisma code and
  meta when it has them).
\<close>

theorem ingestLead_raw_failure_fatal:
  assumes "insert_leads_raw (leadRaw_create_fault env) (leadRaw_data leadId options) (leads_raw w)
             = Inl error"
    and "\<not> isPrismaUniqueConstraintError error \<or>
         (\<forall>field \<in> set (meta_target error).
            \<not> string_includes (toLowerCase field) ''idempotency'')"
  shows "fst (ingestLead env leadId options w) = Inr (IngestLeadError error) \<and>
         leads (snd (ingestLead env leadId options w)) = leads w \<and>
         leads_raw (snd (ingestLead env leadId options w)) = leads_raw w \<and>
         queries (snd (ingestLead env leadId options w)) =
           queries w @ [LeadRaw_create (leadRaw_data leadId options)] \<and>
         logged (snd (ingestLead env leadId options w)) =
           logged w @
           [\<lparr>level = INFO,
             bindings =
               [(''leadId'', LString leadId),
                (''idempotencyKey'',
                   case idempotencyKey options of Some s \<Rightarrow> LString s | None \<Rightarrow> LNull),
                (''xRequestId'',
                   case xRequestId options of Some s \<Rightarrow> LString s | None \<Rightarrow> LNull)],
             msg = ''Starting lead ingestion''\<rparr>,
            \<lparr>level = ERROR,
             bindings =
               [(''step'', LString ''raw_storage''),
                (''leadId'', LString leadId),
                (''idempotencyKey'',
                   case idempotencyKey options of Some s \<Rightarrow> LString s | None \<Rightarrow> LNull),
                (''xRequestId'',
                   case xRequestId options of Some s \<Rightarrow> LString s | None \<Rightarrow> LNull),
                (''payload'', LPayload (payload options))] @
               (case error of
                  PrismaClientKnownRequestError e code meta \<Rightarrow>
                    [(''errorName'', LString (name e)),
                     (''errorMessage'', LString (message e)),
                     (''errorStack'',
                        case stack e of Some s \<Rightarrow> LString s | None \<Rightarrow> LUndefined),
                     (''prismaCode'', LString code),
                     (''prismaMeta'',
                        case meta of Some m \<Rightarrow> LMeta m | None \<Rightarrow> LUndefined)]
                | OtherError e \<Rightarrow>
                    [(''errorName'', LString (name e)),
                     (''errorMessage'', LString (message e)),
                     (''errorStack'',
                        case stack e of Some s \<Rightarrow> LString s | None \<Rightarrow> LUndefined)]
                | NonError s \<Rightarrow> [(''error'', LString s)]),
             msg =
               (case error of
                  NonError s \<Rightarrow> ''Unknown error occurred during lead ingestion''
                | _ \<Rightarrow> ''Error occurred during lead ingestion'')\<rparr>]"
proof -
  let ?w1 = "logger_info (request_context leadId options) ''Starting lead ingestion'' w
               \<lparr>queries := queries w @ [LeadRaw_create (leadRaw_data leadId options)]\<rparr>"
  have other: "\<not> isIdempotencyKeyConstraintError error"
    using assms(2) by (auto simp: classified_iff_some)
  have eq: "ingestLead env leadId options w =
      (Inr (IngestLeadError error),
       logError error (error_context ''raw_storage'' leadId options) ?w1)"
    using assms(1) other by (simp add: ingestLead_cases)
  have start: "logged ?w1 = logged w @
       [\<lparr>level = INFO,
         bindings =
           [(''leadId'', LString leadId),
            (''idempotencyKey'',
               case idempotencyKey options of Some s \<Rightarrow> LString s | None \<Rightarrow> LNull),
            (''xRequestId'',
               case xRequestId options of Some s \<Rightarrow> LString s | None \<Rightarrow> LNull)],
         msg = ''Starting lead ingestion''\<rparr>]"
    by (simp add: request_context_def nullable_def)
  have "logged (logError error (error_context ''raw_storage'' leadId options) ?w1) =
          logged ?w1 @
          [\<lparr>level = ERROR,
             bindings =
               [(''step'', LString ''raw_storage''),
                (''leadId'', LString leadId),
                (''idempotencyKey'',
                   case idempotencyKey options of Some s \<Rightarrow> LString s | None \<Rightarrow> LNull),
                (''xRequestId'',
                   case xRequestId options of Some s \<Rightarrow> LString s | None \<Rightarrow> LNull),
                (''payload'', LPayload (payload options))] @
               (case error of
                  PrismaClientKnownRequestError e code meta \<Rightarrow>
                    [(''errorName'', LString (name e)),
                     (''errorMessage'', LString (message e)),
                     (''errorStack'',
                        case stack e of Some s \<Rightarrow> LString s | None \<Rightarrow> LUndefined),
                     (''prismaCode'', LString code),
                     (''prismaMeta'',
                        case meta of Some m \<Rightarrow> LMeta m | None \<Rightarrow> LUndefined)]
                | OtherError e \<Rightarrow>
                    [(''errorName'', LString (name e)),
                     (''errorMessage'', LString (message e)),
                     (''errorStack'',
                        case stack e of Some s \<Rightarrow> LString s | None \<Rightarrow> LUndefined)]
                | NonError s \<Rightarrow> [(''error'', LString s)]),
             msg =
               (case error of
                  NonError s \<Rightarrow> ''Unknown error occurred during lead ingestion''
                | _ \<Rightarrow> ''Error occurred during lead ingestion'')\<rparr>]"
    by (cases error)
      (simp_all add: logError_def error_context_def request_context_def nullable_def
        optional_def del: logger_info_frame)
  then have log: "logged (logError error (error_context ''raw_storage'' leadId options) ?w1) =
          logged w @
          [\<lparr>level = INFO,
             bindings =
               [(''leadId'', LString leadId),
                (''idempotencyKey'',
                   case idempotencyKey options of Some s \<Rightarrow> LString s | None \<Rightarrow> LNull),
                (''xRequestId'',
                   case xRequestId options of Some s \<Rightarrow> LString s | None \<Rightarrow> LNull)],
             msg = ''Starting lead ingestion''\<rparr>,
           \<lparr>level = ERROR,
             bindings =
               [(''step'', LString ''raw_storage''),
                (''leadId'', LString leadId),
                (''idempotencyKey'',
                   case idempotencyKey options of Some s \<Rightarrow> LString s | None \<Rightarrow> LNull),
                (''xRequestId'',
                   case xRequestId options of Some s \<Rightarrow> LString s | None \<Rightarrow> LNull),
                (''payload'', LPayload (payload options))] @
               (case error of
                  PrismaClientKnownRequestError e code meta \<Rightarrow>
                    [(''errorName'', LString (name e)),
                     (''errorMessage'', LString (message e)),
                     (''errorStack'',
                        case stack e of Some s \<Rightarrow> LString s | None \<Rightarrow> LUndefined),
                     (''prismaCode'', LString code),
                     (''prismaMeta'',
                        case meta of Some m \<Rightarrow> LMeta m | None \<Rightarrow> LUndefined)]
                | OtherError e \<Rightarrow>
                    [(''errorName'', LString (name e)),
                     (''errorMessage'', LString (message e)),
                     (''errorStack'',
                        case stack e of Some s \<Rightarrow> LString s | None \<Rightarrow> LUndefined)]
                | NonError s \<Rightarrow> [(''error'', LString s)]),
             msg =
               (case error of
                  NonError s \<Rightarrow> ''Unknown error occurred during lead ingestion''
                | _ \<Rightarrow> ''Error occurred during lead ingestion'')\<rparr>]"
    by (simp only: start append_assoc append_Cons append_Nil)
  have frame: "leads (snd (ingestLead env leadId options w)) = leads w"
    "leads_raw (snd (ingestLead env leadId options w)) = leads_raw w"
    "queries (snd (ingestLead env leadId options w)) =
       queries w @ [LeadRaw_create (leadRaw_data leadId options)]"
    by (simp_all add: eq)
  have "logged (snd (ingestLead env leadId options w)) =
          logged (logError error (error_context ''raw_storage'' leadId options) ?w1)"
    by (simp only: eq snd_conv)
  with log frame eq show ?thesis
    by (simp only: fst_conv)
qed

text \<open>
  Claim C3, amended, at two failures. On an empty store whose database cannot be reached,
  the connection error is returned and logged with the payload. On the store that already
  holds \<open>U1\<close>, a submission that draws the identifier \<open>U1\<close> again violates the
  uniqueness of the identifier, a field that is not the key: the violation is returned and
  the table of normalized leads still holds one row.
\<close>

theorem ingestLead_raw_failure_fatal_witness:
  "insert_leads_raw (leadRaw_create_fault raw_unreachable)
     (leadRaw_data ''U1'' (request_with_key (Some ''k1''))) (leads_raw empty_world)
     = Inl connection_error \<and>
   \<not> isPrismaUniqueConstraintError connection_error \<and>
   fst (ingestLead raw_unreachable ''U1'' (request_with_key (Some ''k1'')) empty_world)
     = Inr (IngestLeadError connection_error) \<and>
   leads (snd (ingestLead raw_unreachable ''U1'' (request_with_key (Some ''k1'')) empty_world)) = [] \<and>
   map level
     (logged (snd (ingestLead raw_unreachable ''U1'' (request_with_key (Some ''k1'')) empty_world)))
     = [INFO, ERROR] \<and>
   (''payload'', LPayload sample_payload)
     \<in> set (bindings (last (logged
          (snd (ingestLead raw_unreachable ''U1'' (request_with_key (Some ''k1'')) empty_world))))) \<and>
   insert_leads_raw (leadRaw_create_fault no_faults)
     (leadRaw_data ''U1'' (request_with_key (Some ''k2''))) (leads_raw world_with_k1)
     = Inl (unique_violation [''id'']) \<and>
   meta_target (unique_violation [''id'']) = [''id''] \<and>
   \<not> string_includes (toLowerCase ''id'') ''idempotency'' \<and>
   fst (ingestLead no_faults ''U1'' (request_with_key (Some ''k2'')) world_with_k1)
     = Inr (IngestLeadError (unique_violation [''id''])) \<and>
   leads (snd (ingestLead no_faults ''U1'' (request_with_key (Some ''k2'')) world_with_k1))
     = leads world_with_k1"
proof -
  have raw: "insert_leads_raw (leadRaw_create_fault raw_unreachable)
     (leadRaw_data ''U1'' (request_with_key (Some ''k1''))) (leads_raw empty_world)
     = Inl connection_error"
    by (simp add: insert_leads_raw_def raw_unreachable_def)
  have other: "\<not> isPrismaUniqueConstraintError connection_error"
    by simp
  have first: "fst (ingestLead raw_unreachable ''U1'' (request_with_key (Some ''k1'')) empty_world)
       = Inr (IngestLeadError connection_error) \<and>
     leads (snd (ingestLead raw_unreachable ''U1'' (request_with_key (Some ''k1'')) empty_world)) = [] \<and>
     map level
       (logged (snd (ingestLead raw_unreachable ''U1'' (request_with_key (Some ''k1'')) empty_world)))
       = [INFO, ERROR] \<and>
     (''payload'', LPayload sample_payload)
       \<in> set (bindings (last (logged
          (snd (ingestLead raw_unreachable ''U1'' (request_with_key (Some ''k1'')) empty_world)))))"
    using ingestLead_raw_failure_fatal [OF raw disjI1 [OF other]]
    by (simp add: connection_error_def)
  have clash: "insert_leads_raw (leadRaw_create_fault no_faults)
     (leadRaw_data ''U1'' (request_with_key (Some ''k2''))) (leads_raw world_with_k1)
     = Inl (unique_violation [''id''])"
    by (simp add: insert_leads_raw_def)
  have unrelated: "\<forall>field \<in> set (meta_target (unique_violation [''id''])).
      \<not> string_includes (toLowerCase field) ''idempotency''"
    by (simp add: unique_violation_def meta_target_def toLowerCase_def toLowerCase_char_def)
  have second: "fst (ingestLead no_faults ''U1'' (request_with_key (Some ''k2'')) world_with_k1)
       = Inr (IngestLeadError (unique_violation [''id''])) \<and>
     leads (snd (ingestLead no_faults ''U1'' (request_with_key (Some ''k2'')) world_with_k1))
       = leads world_with_k1"
    using ingestLead_raw_failure_fatal [OF clash disjI2 [OF unrelated]]
    by blast
  have fields: "meta_target (unique_violation [''id'']) = [''id'']"
    "\<not> string_includes (toLowerCase ''id'') ''idempotency''"
    by (simp_all add: unique_violation_def meta_target_def toLowerCase_def toLowerCase_char_def)
  from raw other first clash fields second show ?thesis
    by blast
qed

subsection \<open>Step 2: the normalization\<close>

text \<open>
  Claim C5: when the raw-capture insert succeeds and the normalization insert then fails
  for a reason that is not a constraint violation, the call returns failure and the raw
  row written in step 1 is still in the raw table: the two inserts are the only storage
  calls issued, nothing is deleted or rolled back.
\<close>

theorem ingestLead_raw_row_persists:
  assumes "insert_leads_raw (leadRaw_create_fault env) (leadRaw_data leadId options) (leads_raw w)
             = Inr table"
    and "insert_leads (lead_create_fault env) (lead_data leadId options) (leads w) = Inl error"
    and "\<not> isPrismaUniqueConstraintError error"
  shows "fst (ingestLead env leadId options w) = Inr (IngestLeadError error) \<and>
         leads_raw (snd (ingestLead env leadId options w))
           = leads_raw w @ [leadRaw_data leadId options] \<and>
         queries (snd (ingestLead env leadId options w)) =
           queries w @ [LeadRaw_create (leadRaw_data leadId options),
                        Lead_create (lead_data leadId options)]"
  using assms insert_leads_raw_Inr [OF assms(1)] not_unique_not_idempotency [OF assms(3)]
  by (simp add: ingestLead_result ingestLead_leads_raw ingestLead_queries raw_storage_passes_def
      normalized_storage_result)

text \<open>Claim C5 on an empty store that loses its connection between the two inserts.\<close>

theorem ingestLead_raw_row_persists_witness:
  "insert_leads_raw (leadRaw_create_fault normalized_unreachable)
     (leadRaw_data ''U1'' (request_with_key (Some ''k1''))) (leads_raw empty_world)
     = Inr [leadRaw_data ''U1'' (request_with_key (Some ''k1''))] \<and>
   insert_leads (lead_create_fault normalized_unreachable)
     (lead_data ''U1'' (request_with_key (Some ''k1''))) (leads empty_world)
     = Inl connection_error \<and>
   \<not> isPrismaUniqueConstraintError connection_error \<and>
   fst (ingestLead normalized_unreachable ''U1'' (request_with_key (Some ''k1'')) empty_world)
     = Inr (IngestLeadError connection_error) \<and>
   leads_raw (snd (ingestLead normalized_unreachable ''U1'' (request_with_key (Some ''k1''))
                     empty_world))
     = [leadRaw_data ''U1'' (request_with_key (Some ''k1''))]"
proof -
  have raw: "insert_leads_raw (leadRaw_create_fault normalized_unreachable)
     (leadRaw_data ''U1'' (request_with_key (Some ''k1''))) (leads_raw empty_world)
     = Inr [leadRaw_data ''U1'' (request_with_key (Some ''k1''))]"
    by (simp add: insert_leads_raw_def normalized_unreachable_def)
  have norm: "insert_leads (lead_create_fault normalized_unreachable)
     (lead_data ''U1'' (request_with_key (Some ''k1''))) (leads empty_world)
     = Inl connection_error"
    by (simp add: insert_leads_def normalized_unreachable_def)
  have other: "\<not> isPrismaUniqueConstraintError connection_error"
    by simp
  from ingestLead_raw_row_persists [OF raw norm other] raw norm other
  show ?thesis by simp
qed

text \<open>
  Claim C6: when the normalization insert fails with an idempotency-key constraint
  violation and the lookup by idempotency key finds no normalized lead, the call logs at
  error severity and returns the failure result with the insert's error. The storage calls
  issued are one raw insert, one normalization insert and one lookup: nothing is retried,
  and the table of normalized leads is unchanged.
\<close>

theorem ingestLead_duplicate_not_found_fatal:
  assumes "raw_storage_passes env leadId options w"
    and "insert_leads (lead_create_fault env) (lead_data leadId options) (leads w) = Inl error"
    and "isIdempotencyKeyConstraintError error"
    and "find_first_lead (lead_findFirst_fault env) (or_undefined (idempotencyKey options)) (leads w)
           = Inr None"
  shows "fst (ingestLead env leadId options w) = Inr (IngestLeadError error) \<and>
         queries (snd (ingestLead env leadId options w)) =
           queries w @ [LeadRaw_create (leadRaw_data leadId options),
                        Lead_create (lead_data leadId options),
                        Lead_findFirst (or_undefined (idempotencyKey options))] \<and>
         last (logged (snd (ingestLead env leadId options w))) =
           \<lparr>level = ERROR, bindings = request_context leadId options,
            msg = ''Idempotency key conflict but existing lead not found''\<rparr> \<and>
         leads (snd (ingestLead env leadId options w)) = leads w"
proof -
  have "last (logged (snd (normalized_storage env leadId options w'))) =
           \<lparr>level = ERROR, bindings = request_context leadId options,
            msg = ''Idempotency key conflict but existing lead not found''\<rparr>"
    if "leads w' = leads w" for w'
    using that assms(2-4)
    by (simp add: normalized_storage_def prisma_lead_create_def prisma_lead_findFirst_def Let_def)
  then have "last (logged (snd (ingestLead env leadId options w))) =
           \<lparr>level = ERROR, bindings = request_context leadId options,
            msg = ''Idempotency key conflict but existing lead not found''\<rparr>"
    using assms(1)
    by (simp add: ingestLead_cases raw_storage_passes_def split: sum.splits)
  then show ?thesis
    using assms
    by (simp add: ingestLead_result_passes ingestLead_leads ingestLead_queries
        normalized_storage_result normalized_storage_leads)
qed

text \<open>
  Claim C6 on an empty store: the normalization insert reports a conflict on the key, and
  the lookup for \<open>k1\<close> finds nothing.
\<close>

theorem ingestLead_duplicate_not_found_fatal_witness:
  "raw_storage_passes normalized_conflict ''U1'' (request_with_key (Some ''k1'')) empty_world \<and>
   insert_leads (lead_create_fault normalized_conflict)
     (lead_data ''U1'' (request_with_key (Some ''k1''))) (leads empty_world)
     = Inl (unique_violation [''idempotencyKey'']) \<and>
   isIdempotencyKeyConstraintError (unique_violation [''idempotencyKey'']) \<and>
   find_first_lead (lead_findFirst_fault normalized_conflict)
     (or_undefined (idempotencyKey (request_with_key (Some ''k1'')))) (leads empty_world)
     = Inr None \<and>
   fst (ingestLead normalized_conflict ''U1'' (request_with_key (Some ''k1'')) empty_world)
     = Inr (IngestLeadError (unique_violation [''idempotencyKey''])) \<and>
   queries (snd (ingestLead normalized_conflict ''U1'' (request_with_key (Some ''k1'')) empty_world))
     = [LeadRaw_create (leadRaw_data ''U1'' (request_with_key (Some ''k1''))),
        Lead_create (lead_data ''U1'' (request_with_key (Some ''k1''))),
        Lead_findFirst (Equals ''k1'')]"
proof -
  have pass: "raw_storage_passes normalized_conflict ''U1'' (request_with_key (Some ''k1'')) empty_world"
    by (simp add: raw_storage_passes_def insert_leads_raw_def normalized_conflict_def)
  have norm: "insert_leads (lead_create_fault normalized_conflict)
     (lead_data ''U1'' (request_with_key (Some ''k1''))) (leads empty_world)
     = Inl (unique_violation [''idempotencyKey''])"
    by (simp add: insert_leads_def normalized_conflict_def)
  have dup: "isIdempotencyKeyConstraintError (unique_violation [''idempotencyKey''])"
    by simp
  have none: "find_first_lead (lead_findFirst_fault normalized_conflict)
     (or_undefined (idempotencyKey (request_with_key (Some ''k1'')))) (leads empty_world)
     = Inr None"
    by (simp add: find_first_lead_def normalized_conflict_def)
  from ingestLead_duplicate_not_found_fatal [OF pass norm dup none] pass norm dup none
  show ?thesis by simp
qed

subsection \<open>Falsy idempotency keys\<close>

text \<open>
  Claim C9: when the idempotency key is the empty string, the rows handed to both inserts
  carry a null key, and the call behaves exactly like the call with an absent key: the same
  result, the same tables and the same storage calls, whatever the store holds and however
  it fails. Null keys are exempt from the uniqueness constraints, so on a store that imposes
  no failure of its own the call never returns \<^verbatim>\<open>deduplicated = true\<close>, and when the
  store does not hold the fresh identifier the call creates both rows and returns that
  identifier with \<^verbatim>\<open>deduplicated = false\<close>.
\<close>

theorem ingestLead_empty_key_like_absent:
  assumes "idempotencyKey options = Some []"
  shows "leads_raw_idempotencyKey (leadRaw_data leadId options) = None \<and>
         leads_idempotencyKey (lead_data leadId options) = None \<and>
         fst (ingestLead env leadId options w) =
           fst (ingestLead env leadId (options\<lparr>idempotencyKey := None\<rparr>) w) \<and>
         leads_raw (snd (ingestLead env leadId options w)) =
           leads_raw (snd (ingestLead env leadId (options\<lparr>idempotencyKey := None\<rparr>) w)) \<and>
         leads (snd (ingestLead env leadId options w)) =
           leads (snd (ingestLead env leadId (options\<lparr>idempotencyKey := None\<rparr>) w)) \<and>
         queries (snd (ingestLead env leadId options w)) =
           queries (snd (ingestLead env leadId (options\<lparr>idempotencyKey := None\<rparr>) w)) \<and>
         (\<forall>existing. fst (ingestLead no_faults leadId options w)
                       \<noteq> Inr (IngestLeadResult existing True)) \<and>
         (leadId \<notin> set (map leads_raw_id (leads_raw w)) \<and>
          leadId \<notin> set (map leads_id (leads w)) \<longrightarrow>
            fst (ingestLead no_faults leadId options w) = Inr (IngestLeadResult leadId False) \<and>
            leads_raw (snd (ingestLead no_faults leadId options w)) =
              leads_raw w @ [leadRaw_data leadId options] \<and>
            leads (snd (ingestLead no_faults leadId options w)) =
              leads w @ [lead_data leadId options])"
proof -
  have same: "leadRaw_data leadId (options\<lparr>idempotencyKey := None\<rparr>) = leadRaw_data leadId options"
    "lead_data leadId (options\<lparr>idempotencyKey := None\<rparr>) = lead_data leadId options"
    "or_undefined (idempotencyKey (options\<lparr>idempotencyKey := None\<rparr>)) =
     or_undefined (idempotencyKey options)"
    using assms by (simp_all add: leadRaw_data_def lead_data_def)
  have null: "leads_raw_idempotencyKey (leadRaw_data leadId options) = None"
    "leads_idempotencyKey (lead_data leadId options) = None"
    using assms by simp_all
  have like_absent:
    "fst (ingestLead env leadId options w) =
       fst (ingestLead env leadId (options\<lparr>idempotencyKey := None\<rparr>) w)"
    "leads_raw (snd (ingestLead env leadId options w)) =
       leads_raw (snd (ingestLead env leadId (options\<lparr>idempotencyKey := None\<rparr>) w))"
    "leads (snd (ingestLead env leadId options w)) =
       leads (snd (ingestLead env leadId (options\<lparr>idempotencyKey := None\<rparr>) w))"
    "queries (snd (ingestLead env leadId options w)) =
       queries (snd (ingestLead env leadId (options\<lparr>idempotencyKey := None\<rparr>) w))"
    unfolding ingestLead_result ingestLead_leads_raw ingestLead_leads ingestLead_queries
      normalized_storage_result normalized_storage_leads raw_storage_passes_def same
    by simp_all
  have fresh: "fst (ingestLead no_faults leadId options w) = Inr (IngestLeadResult leadId False) \<and>
            leads_raw (snd (ingestLead no_faults leadId options w)) =
              leads_raw w @ [leadRaw_data leadId options] \<and>
            leads (snd (ingestLead no_faults leadId options w)) =
              leads w @ [lead_data leadId options]"
    if "leadId \<notin> set (map leads_raw_id (leads_raw w))" "leadId \<notin> set (map leads_id (leads w))"
  proof -
    have "insert_leads_raw None (leadRaw_data leadId options) (leads_raw w) =
            Inr (leads_raw w @ [leadRaw_data leadId options])"
      using that(1) null(1) by (simp add: insert_leads_raw_null_key)
    moreover have "insert_leads None (lead_data leadId options) (leads w) =
            Inr (leads w @ [lead_data leadId options])"
      using that(2) null(2) by (simp add: insert_leads_null_key)
    ultimately show ?thesis
      by (simp add: ingestLead_result ingestLead_leads_raw ingestLead_leads
          normalized_storage_result normalized_storage_leads raw_storage_passes_def)
  qed
  have never: "fst (ingestLead no_faults leadId options w) \<noteq> Inr (IngestLeadResult existing True)"
    for existing
    using null
    by (auto simp: ingestLead_result normalized_storage_result insert_leads_raw_def
        insert_leads_def split: sum.splits if_splits)
  from null like_absent never fresh show ?thesis by blast
qed

text \<open>
  Claim C9 on the store that holds \<open>U1\<close> under \<open>k1\<close>: a submission with the empty key
  gets the fresh identifier \<open>U2\<close> and a second row.
\<close>

theorem ingestLead_empty_key_like_absent_witness:
  "idempotencyKey (request_with_key (Some [])) = Some [] \<and>
   ''U2'' \<notin> set (map leads_raw_id (leads_raw world_with_k1)) \<and>
   ''U2'' \<notin> set (map leads_id (leads world_with_k1)) \<and>
   fst (ingestLead no_faults ''U2'' (request_with_key (Some [])) world_with_k1)
     = Inr (IngestLeadResult ''U2'' False) \<and>
   map leads_idempotencyKey
     (leads (snd (ingestLead no_faults ''U2'' (request_with_key (Some [])) world_with_k1)))
     = [Some ''k1'', None]"
proof -
  have key: "idempotencyKey (request_with_key (Some [])) = Some []"
    by simp
  have fresh: "''U2'' \<notin> set (map leads_raw_id (leads_raw world_with_k1)) \<and>
               ''U2'' \<notin> set (map leads_id (leads world_with_k1))"
    by simp
  from ingestLead_empty_key_like_absent [OF key, of "''U2''" no_faults world_with_k1] fresh
  have "fst (ingestLead no_faults ''U2'' (request_with_key (Some [])) world_with_k1)
          = Inr (IngestLeadResult ''U2'' False) \<and>
        leads (snd (ingestLead no_faults ''U2'' (request_with_key (Some [])) world_with_k1))
          = leads world_with_k1 @ [lead_data ''U2'' (request_with_key (Some []))]"
    by blast
  with key fresh show ?thesis by simp
qed

text \<open>
  Claim C10: when the normalization insert fails with an error classified as an
  idempotency-key constraint violation while the supplied key is null or the empty string,
  the lookup is issued with an undefined condition, that is with no filter. If the lookup
  itself succeeds it finds the first row of the table, if any, and the call returns that
  row's identifier with \<^verbatim>\<open>deduplicated = true\<close>; on an empty table it returns failure.
\<close>

theorem ingestLead_null_key_conflict_returns_first_lead:
  assumes "idempotencyKey options = None \<or> idempotencyKey options = Some []"
    and "raw_storage_passes env leadId options w"
    and "insert_leads (lead_create_fault env) (lead_data leadId options) (leads w) = Inl error"
    and "isIdempotencyKeyConstraintError error"
    and "lead_findFirst_fault env = None"
  shows "last (queries (snd (ingestLead env leadId options w))) = Lead_findFirst Undefined \<and>
         fst (ingestLead env leadId options w) =
           (case leads w of
              [] \<Rightarrow> Inr (IngestLeadError error)
            | first # _ \<Rightarrow> Inr (IngestLeadResult (leads_id first) True))"
proof -
  have "or_undefined (idempotencyKey options) = Undefined"
    using assms(1) by auto
  then show ?thesis
    using assms(2-5)
    by (auto simp: ingestLead_result_passes ingestLead_queries normalized_storage_result
        find_first_lead_def split: list.splits)
qed

text \<open>
  Claim C10 on the store that holds \<open>U1\<close> under \<open>k1\<close>: a submission without a key whose
  normalization insert reports a conflict on the key is answered with \<open>U1\<close>.
\<close>

theorem ingestLead_null_key_conflict_returns_first_lead_witness:
  "(idempotencyKey (request_with_key None) = None \<or>
    idempotencyKey (request_with_key None) = Some []) \<and>
   raw_storage_passes normalized_conflict ''U2'' (request_with_key None) world_with_k1 \<and>
   insert_leads (lead_create_fault normalized_conflict)
     (lead_data ''U2'' (request_with_key None)) (leads world_with_k1)
     = Inl (unique_violation [''idempotencyKey'']) \<and>
   isIdempotencyKeyConstraintError (unique_violation [''idempotencyKey'']) \<and>
   lead_findFirst_fault normalized_conflict = None \<and>
   last (queries (snd (ingestLead normalized_conflict ''U2'' (request_with_key None) world_with_k1)))
     = Lead_findFirst Undefined \<and>
   fst (ingestLead normalized_conflict ''U2'' (request_with_key None) world_with_k1)
     = Inr (IngestLeadResult ''U1'' True)"
proof -
  have key: "idempotencyKey (request_with_key None) = None \<or>
             idempotencyKey (request_with_key None) = Some []"
    by simp
  have pass: "raw_storage_passes normalized_conflict ''U2'' (request_with_key None) world_with_k1"
    by (simp add: raw_storage_passes_def insert_leads_raw_def normalized_conflict_def)
  have norm: "insert_leads (lead_create_fault normalized_conflict)
     (lead_data ''U2'' (request_with_key None)) (leads world_with_k1)
     = Inl (unique_violation [''idempotencyKey''])"
    by (simp add: insert_leads_def normalized_conflict_def)
  have dup: "isIdempotencyKeyConstraintError (unique_violation [''idempotencyKey''])"
    by simp
  have lookup: "lead_findFirst_fault normalized_conflict = None"
    by (simp add: normalized_conflict_def)
  from ingestLead_null_key_conflict_returns_first_lead [OF key pass norm dup lookup]
    key pass norm dup lookup
  show ?thesis by simp
qed

subsection \<open>Two submissions under one key\<close>

text \<open>
  Claim C1, as stated: two sequential calls sharing the same non-null idempotency key leave
  exactly one normalized lead with that key, and the second call returns the first call's
  identifier with \<^verbatim>\<open>deduplicated = true\<close>. The empty string is a non-null key, and two
  calls under it on an empty store create two leads and return two identifiers, both with
  \<^verbatim>\<open>deduplicated = false\<close>.
\<close>

theorem ingestLead_empty_key_twice_counterexample:
  "idempotencyKey (request_with_key (Some [])) \<noteq> None \<and>
   fst (ingestLead no_faults ''U1'' (request_with_key (Some [])) empty_world)
     = Inr (IngestLeadResult ''U1'' False) \<and>
   fst (ingestLead no_faults ''U2'' (request_with_key (Some []))
          (snd (ingestLead no_faults ''U1'' (request_with_key (Some [])) empty_world)))
     = Inr (IngestLeadResult ''U2'' False) \<and>
   map leads_id
     (leads (snd (ingestLead no_faults ''U2'' (request_with_key (Some []))
                    (snd (ingestLead no_faults ''U1'' (request_with_key (Some [])) empty_world)))))
     = [''U1'', ''U2'']"
  by (simp add: ingestLead_result ingestLead_leads ingestLead_leads_raw normalized_storage_result
      normalized_storage_leads raw_storage_passes_def insert_leads_raw_def insert_leads_def)

text \<open>
  Claim C1, amended: for two sequential calls sharing the same non-null and non-empty
  idempotency key, on a store that holds no normalized lead under that key, imposes no
  failure of its own and does not hold the two distinct fresh identifiers: the first call
  returns its identifier with \<^verbatim>\<open>deduplicated = false\<close>, the second call returns the
  first call's identifier with \<^verbatim>\<open>deduplicated = true\<close>, and afterwards exactly one
  normalized lead carries the key, the row written by the first call.
\<close>

theorem ingestLead_same_key_twice:
  assumes "k \<noteq> []"
    and "idempotencyKey first = Some k" and "idempotencyKey second = Some k"
    and "Some k \<notin> set (map leads_idempotencyKey (leads w))"
    and "id1 \<notin> set (map leads_raw_id (leads_raw w))" and "id1 \<notin> set (map leads_id (leads w))"
    and "id2 \<notin> set (map leads_raw_id (leads_raw w))" and "id2 \<notin> set (map leads_id (leads w))"
    and "id2 \<noteq> id1"
  shows "fst (ingestLead no_faults id1 first w) = Inr (IngestLeadResult id1 False) \<and>
         fst (ingestLead no_faults id2 second (snd (ingestLead no_faults id1 first w))) =
           Inr (IngestLeadResult id1 True) \<and>
         filter (\<lambda>row. leads_idempotencyKey row = Some k)
           (leads (snd (ingestLead no_faults id2 second (snd (ingestLead no_faults id1 first w))))) =
           [lead_data id1 first]"
proof -
  let ?w1 = "snd (ingestLead no_faults id1 first w)"
  let ?w2 = "snd (ingestLead no_faults id2 second ?w1)"
  have key: "or_null (idempotencyKey first) = Some k" "or_null (idempotencyKey second) = Some k"
    using assms(1-3) by simp_all
  have pass1: "raw_storage_passes no_faults id1 first w"
    using assms(5) by (simp add: raw_storage_passes_def insert_leads_raw_def)
  have ins1: "insert_leads (lead_create_fault no_faults) (lead_data id1 first) (leads w) =
                Inr (leads w @ [lead_data id1 first])"
    using assms(4,6) key by (simp add: insert_leads_def)
  have r1: "fst (ingestLead no_faults id1 first w) = Inr (IngestLeadResult id1 False)"
    using ins1 by (simp add: ingestLead_result_passes [OF pass1] normalized_storage_result)
  have leads1: "leads ?w1 = leads w @ [lead_data id1 first]"
    using pass1 ins1 by (rule ingestLead_leads_inserted)
  have raw1: "leads_raw ?w1 = leads_raw w \<or> leads_raw ?w1 = leads_raw w @ [leadRaw_data id1 first]"
    by (auto simp: ingestLead_leads_raw split: sum.splits dest: insert_leads_raw_Inr)
  have pass2: "raw_storage_passes no_faults id2 second ?w1"
    using raw1 assms(7,9) by (auto simp: raw_storage_passes_def insert_leads_raw_def)
  have ins2: "insert_leads (lead_create_fault no_faults) (lead_data id2 second) (leads ?w1) =
                Inl (unique_violation [''idempotencyKey''])"
    using assms(8,9) key by (simp add: leads1 insert_leads_def)
  have unused: "\<forall>row \<in> set (leads w). leads_idempotencyKey row \<noteq> Some k"
    using assms(4) by (metis image_eqI set_map)
  then have "\<forall>row \<in> set (leads w). \<not> matches (Equals k) row"
    by simp
  then have "find (matches (Equals k)) (leads w @ [lead_data id1 first]) = Some (lead_data id1 first)"
    using key by (intro find_append_last) simp_all
  then have found: "find_first_lead (lead_findFirst_fault no_faults)
                      (or_undefined (idempotencyKey second)) (leads ?w1) = Inr (Some id1)"
    using assms(1,3) by (simp add: find_first_lead_def leads1)
  have r2: "fst (ingestLead no_faults id2 second ?w1) = Inr (IngestLeadResult id1 True)"
    using ins2 found by (simp add: ingestLead_result_passes [OF pass2] normalized_storage_result)
  have "leads ?w2 = leads ?w1"
    using pass2 ins2 by (rule ingestLead_leads_rejected)
  then have leads2: "leads ?w2 = leads w @ [lead_data id1 first]"
    by (simp only: leads1)
  have "filter (\<lambda>row. leads_idempotencyKey row = Some k) (leads w) = []"
    using unused by (simp add: filter_empty_conv)
  then have "filter (\<lambda>row. leads_idempotencyKey row = Some k) (leads ?w2) = [lead_data id1 first]"
    using key by (simp add: leads2)
  with r1 r2 show ?thesis by simp
qed

text \<open>
  Claim C1, amended, on an empty store: the scenario of section 8 of the specification,
  two submissions under \<open>k1\<close> with the identifiers \<open>U1\<close> and \<open>U2\<close>.
\<close>

theorem ingestLead_same_key_twice_witness:
  "''k1'' \<noteq> [] \<and>
   idempotencyKey (request_with_key (Some ''k1'')) = Some ''k1'' \<and>
   Some ''k1'' \<notin> set (map leads_idempotencyKey (leads empty_world)) \<and>
   ''U1'' \<notin> set (map leads_raw_id (leads_raw empty_world)) \<and>
   ''U1'' \<notin> set (map leads_id (leads empty_world)) \<and>
   ''U2'' \<notin> set (map leads_raw_id (leads_raw empty_world)) \<and>
   ''U2'' \<notin> set (map leads_id (leads empty_world)) \<and>
   ''U2'' \<noteq> ''U1'' \<and>
   fst (ingestLead no_faults ''U1'' (request_with_key (Some ''k1'')) empty_world)
     = Inr (IngestLeadResult ''U1'' False) \<and>
   fst (ingestLead no_faults ''U2'' (request_with_key (Some ''k1''))
          (snd (ingestLead no_faults ''U1'' (request_with_key (Some ''k1'')) empty_world)))
     = Inr (IngestLeadResult ''U1'' True) \<and>
   filter (\<lambda>row. leads_idempotencyKey row = Some ''k1'')
     (leads (snd (ingestLead no_faults ''U2'' (request_with_key (Some ''k1''))
                    (snd (ingestLead no_faults ''U1'' (request_with_key (Some ''k1'')) empty_world)))))
     = [lead_data ''U1'' (request_with_key (Some ''k1''))]"
  using ingestLead_same_key_twice [where k = "''k1''" and w = empty_world
      and first = "request_with_key (Some ''k1'')" and second = "request_with_key (Some ''k1'')"
      and ?id1.0 = "''U1''" and ?id2.0 = "''U2''"]
  by simp

subsection \<open>The normalized row\<close>

text \<open>
  Claim C7, as stated: each field of the normalized row equals the payload's value when
  present and null when absent, with no coercion beyond the presence check. A field that is
  present as the empty string is stored as null: the first name of the sample payload is
  \<^verbatim>\<open>''\<close>, and the stored first name is null.
\<close>

theorem ingestLead_empty_field_counterexample:
  "firstName (payload (request_with_key None)) = Some [] \<and>
   map leads_firstName
     (leads (snd (ingestLead no_faults ''U1'' (request_with_key None) empty_world)))
     = [None]"
  by (simp add: ingestLead_leads normalized_storage_leads raw_storage_passes_def
      insert_leads_raw_def insert_leads_def lead_data_def sample_payload_def)

text \<open>
  Claim C7, amended: whenever step 1 does not abort, the storage calls of the request begin
  with the insert of a raw row and the insert of a normalized row such that the normalized
  row uses the same generated identifier as the raw row, the fixed status \<^verbatim>\<open>new\<close>, the
  same idempotency key and correlation id as the raw row, and a field-by-field projection
  of the payload in which each field equals the payload's value when that is a non-empty
  string and is null when the payload's value is null or the empty string. When the insert
  succeeds, that row is the one appended to the table.
\<close>

theorem ingestLead_normalized_projection:
  assumes "raw_storage_passes env leadId options w"
  shows "\<exists>raw row rest.
           queries (snd (ingestLead env leadId options w)) =
             queries w @ LeadRaw_create raw # Lead_create row # rest \<and>
           (\<forall>table. insert_leads (lead_create_fault env) row (leads w) = Inr table \<longrightarrow>
              leads (snd (ingestLead env leadId options w)) = leads w @ [row]) \<and>
           leads_id row = leads_raw_id raw \<and>
           leads_id row = leadId \<and>
           leads_status row = ''new'' \<and>
           leads_idempotencyKey row = leads_raw_idempotencyKey raw \<and>
           leads_xRequestId row = leads_raw_xRequestId raw \<and>
           leads_clickId row =
             (if click_id (payload options) = Some [] then None else click_id (payload options)) \<and>
           leads_country row =
             (if country (payload options) = Some [] then None else country (payload options)) \<and>
           leads_creo row =
             (if creo (payload options) = Some [] then None else creo (payload options)) \<and>
           leads_description row =
             (if description (payload options) = Some [] then None
              else description (payload options)) \<and>
           leads_domain row =
             (if domain (payload options) = Some [] then None else domain (payload options)) \<and>
           leads_email row =
             (if email (payload options) = Some [] then None else email (payload options)) \<and>
           leads_firstName row =
             (if firstName (payload options) = Some [] then None else firstName (payload options)) \<and>
           leads_lastName row =
             (if lastName (payload options) = Some [] then None else lastName (payload options)) \<and>
           leads_ip row =
             (if ip (payload options) = Some [] then None else ip (payload options)) \<and>
           leads_lang row =
             (if lang (payload options) = Some [] then None else lang (payload options)) \<and>
           leads_marker row =
             (if marker (payload options) = Some [] then None else marker (payload options)) \<and>
           leads_offer row =
             (if offer (payload options) = Some [] then None else offer (payload options)) \<and>
           leads_phone row =
             (if phone (payload options) = Some [] then None else phone (payload options)) \<and>
           leads_sourcetype row =
             (if sourcetype (payload options) = Some [] then None
              else sourcetype (payload options))"
proof -
  let ?raw = "leadRaw_data leadId options" and ?row = "lead_data leadId options"
  obtain rest where q: "queries (snd (ingestLead env leadId options w)) =
             queries w @ LeadRaw_create ?raw # Lead_create ?row # rest"
    using assms by (simp add: ingestLead_queries)
  have stored: "\<forall>table. insert_leads (lead_create_fault env) ?row (leads w) = Inr table \<longrightarrow>
              leads (snd (ingestLead env leadId options w)) = leads w @ [?row]"
    using assms by (auto simp: ingestLead_leads normalized_storage_leads dest: insert_leads_Inr)
  have proj:
    "leads_id ?row = leads_raw_id ?raw" "leads_id ?row = leadId" "leads_status ?row = ''new''"
    "leads_idempotencyKey ?row = leads_raw_idempotencyKey ?raw"
    "leads_xRequestId ?row = leads_raw_xRequestId ?raw"
    "leads_clickId ?row =
       (if click_id (payload options) = Some [] then None else click_id (payload options))"
    "leads_country ?row =
       (if country (payload options) = Some [] then None else country (payload options))"
    "leads_creo ?row =
       (if creo (payload options) = Some [] then None else creo (payload options))"
    "leads_description ?row =
       (if description (payload options) = Some [] then None else description (payload options))"
    "leads_domain ?row =
       (if domain (payload options) = Some [] then None else domain (payload options))"
    "leads_email ?row =
       (if email (payload options) = Some [] then None else email (payload options))"
    "leads_firstName ?row =
       (if firstName (payload options) = Some [] then None else firstName (payload options))"
    "leads_lastName ?row =
       (if lastName (payload options) = Some [] then None else lastName (payload options))"
    "leads_ip ?row =
       (if ip (payload options) = Some [] then None else ip (payload options))"
    "leads_lang ?row =
       (if lang (payload options) = Some [] then None else lang (payload options))"
    "leads_marker ?row =
       (if marker (payload options) = Some [] then None else marker (payload options))"
    "leads_offer ?row =
       (if offer (payload options) = Some [] then None else offer (payload options))"
    "leads_phone ?row =
       (if phone (payload options) = Some [] then None else phone (payload options))"
    "leads_sourcetype ?row =
       (if sourcetype (payload options) = Some [] then None else sourcetype (payload options))"
    unfolding lead_data_def leadRaw_data_def or_null_presence by simp_all
  show ?thesis
    apply (rule exI [of _ ?raw], rule exI [of _ ?row], rule exI [of _ rest])
    using q stored proj by blast
qed

text \<open>
  Claim C7, amended, on an empty store: the sample payload has a country, an email and an
  empty first name; the row stored for it has the identifier of the raw row, the status
  \<^verbatim>\<open>new\<close>, the country and the email, and a null first name.
\<close>

theorem ingestLead_normalized_projection_witness:
  "raw_storage_passes no_faults ''U1'' (request_with_key (Some ''k1'')) empty_world \<and>
   insert_leads (lead_create_fault no_faults)
     (lead_data ''U1'' (request_with_key (Some ''k1''))) (leads empty_world)
     = Inr [lead_data ''U1'' (request_with_key (Some ''k1''))] \<and>
   map (\<lambda>row. (leads_id row, leads_status row, leads_country row, leads_email row,
               leads_firstName row, leads_idempotencyKey row))
     (leads (snd (ingestLead no_faults ''U1'' (request_with_key (Some ''k1'')) empty_world)))
     = [(''U1'', ''new'', Some ''LV'', Some ''a@x.com'', None, Some ''k1'')] \<and>
   map leads_raw_id
     (leads_raw (snd (ingestLead no_faults ''U1'' (request_with_key (Some ''k1'')) empty_world)))
     = [''U1'']"
proof -
  have pass: "raw_storage_passes no_faults ''U1'' (request_with_key (Some ''k1'')) empty_world"
    by (simp add: raw_storage_passes_def insert_leads_raw_def)
  have ins: "insert_leads (lead_create_fault no_faults)
     (lead_data ''U1'' (request_with_key (Some ''k1''))) (leads empty_world)
     = Inr [lead_data ''U1'' (request_with_key (Some ''k1''))]"
    by (simp add: insert_leads_def)
  have calls: "queries (snd (ingestLead no_faults ''U1'' (request_with_key (Some ''k1'')) empty_world))
     = [LeadRaw_create (leadRaw_data ''U1'' (request_with_key (Some ''k1''))),
        Lead_create (lead_data ''U1'' (request_with_key (Some ''k1'')))]"
    using pass ins by (simp add: ingestLead_queries)
  have raw: "map leads_raw_id
     (leads_raw (snd (ingestLead no_faults ''U1'' (request_with_key (Some ''k1'')) empty_world)))
     = [''U1'']"
    by (simp add: ingestLead_leads_raw insert_leads_raw_def)
  from ingestLead_normalized_projection [OF pass]
  obtain raw row rest where
    "queries (snd (ingestLead no_faults ''U1'' (request_with_key (Some ''k1'')) empty_world)) =
       queries empty_world @ LeadRaw_create raw # Lead_create row # rest"
    and stored: "\<forall>table. insert_leads (lead_create_fault no_faults) row (leads empty_world)
                   = Inr table \<longrightarrow>
       leads (snd (ingestLead no_faults ''U1'' (request_with_key (Some ''k1'')) empty_world))
         = leads empty_world @ [row]"
    and fields: "leads_id row = ''U1''" "leads_status row = ''new''"
      "leads_country row =
         (if country (payload (request_with_key (Some ''k1''))) = Some [] then None
          else country (payload (request_with_key (Some ''k1''))))"
      "leads_email row =
         (if email (payload (request_with_key (Some ''k1''))) = Some [] then None
          else email (payload (request_with_key (Some ''k1''))))"
      "leads_firstName row =
         (if firstName (payload (request_with_key (Some ''k1''))) = Some [] then None
          else firstName (payload (request_with_key (Some ''k1''))))"
    by blast
  then have row: "row = lead_data ''U1'' (request_with_key (Some ''k1''))"
    using calls by simp
  have "leads (snd (ingestLead no_faults ''U1'' (request_with_key (Some ''k1'')) empty_world))
          = [row]"
    using stored ins row by simp
  then show ?thesis
    using pass ins raw fields row by (simp add: sample_payload_def)
qed

subsection \<open>A lookup that fails\<close>

text \<open>
  Claim C8 says that every failure of either insert or of the lookup that is not an
  idempotency-key violation makes \<^verbatim>\<open>ingestLead\<close> return a failure result, not throw, and
  log the full context with the payload. On the store that holds \<open>U1\<close> under \<open>k1\<close>, a
  second submission under \<open>k1\<close> whose lookup cannot reach the database does neither: the
  promise of \<^verbatim>\<open>ingestLead\<close> is rejected with the lookup's error, and no entry at error
  severity has been logged.
\<close>

theorem ingestLead_lookup_failure_rejects:
  "fst (ingestLead lookup_unreachable ''U2'' (request_with_key (Some ''k1'')) world_with_k1)
     = Inl connection_error \<and>
   \<not> isIdempotencyKeyConstraintError connection_error \<and>
   filter (\<lambda>entry. level entry = ERROR)
     (logged (snd (ingestLead lookup_unreachable ''U2'' (request_with_key (Some ''k1''))
                     world_with_k1)))
     = []"
  by (simp add: ingestLead_cases normalized_storage_def prisma_lead_create_def
      prisma_lead_findFirst_def Let_def insert_leads_raw_def insert_leads_def
      find_first_lead_def lookup_unreachable_def)

end
